theory Spec2Isabelle
  imports Main "HOL-Library.Monad_Syntax"
begin

section \<open>Data model\<close>

text \<open>
  Modelled from the spec: the \<^verbatim>\<open>Node\<close> struct and the \<^verbatim>\<open>root\<close> member are declared in
  \<^verbatim>\<open>RedBlackTree.h\<close>, which is not among the sources. The fields are the ones
  \<^verbatim>\<open>RedBlackTree.cpp\<close> reads and writes (\<^verbatim>\<open>key\<close>, \<^verbatim>\<open>color\<close>, \<^verbatim>\<open>left\<close>, \<^verbatim>\<open>right\<close>, \<^verbatim>\<open>parent\<close>,
  \<^verbatim>\<open>size\<close>), with the types section 3 of the spec gives them. The field \<^verbatim>\<open>size\<close> is called
  \<open>size'\<close> here, since \<open>size\<close> is a constant of HOL. Keys are only ever compared, so they
  are integers. The type of \<^verbatim>\<open>size\<close> is in the absent header too; the spec calls it an
  integer, and the store keeps it as a natural number. The counters the source file itself
  declares (\<^verbatim>\<open>int rank\<close>, \<^verbatim>\<open>int currentRank\<close>, the \<^verbatim>\<open>size_t\<close> argument of \<^verbatim>\<open>select\<close> and the
  \<^verbatim>\<open>size_t\<close> result of \<^verbatim>\<open>rankOf\<close>) have their machine widths, see \<open>to_int\<close> and \<open>to_size_t\<close>
  below.

  A pointer is an optional address, \<open>None\<close> being \<^verbatim>\<open>nullptr\<close>. The nodes live in an explicit
  store from addresses to node records, so that the aliasing between child links and parent
  links is the one of the program. \<^verbatim>\<open>new Node\<close> hands out the address \<open>fresh\<close> and
  increments it.
\<close>

datatype color = RED | BLACK

type_synonym addr = nat
type_synonym ptr = "addr option"

record node =
  key :: int
  color :: color
  left :: ptr
  right :: ptr
  parent :: ptr
  size' :: nat

record rbt =
  root :: ptr
  heap :: "addr \<rightharpoonup> node"
  fresh :: addr

text \<open>Modelled from the spec: the constructor is in the absent header; an empty tree has a
  null root.\<close>

definition empty_tree :: rbt where
  "empty_tree = \<lparr>root = None, heap = Map.empty, fresh = 0\<rparr>"

text \<open>
  What a call does: it returns a value and leaves a tree, or it throws (the tree is the one
  at the \<^verbatim>\<open>throw\<close>), or it dereferences a null or dangling pointer, after which C++ promises
  nothing. A call that never returns is the value \<open>None\<close> of the enclosing option.
\<close>

datatype 'a outcome = Returned 'a rbt | Thrown string rbt | Crashed

subsection \<open>Reading and writing through pointers\<close>

definition deref :: "rbt \<Rightarrow> ptr \<Rightarrow> node option" where
  "deref s p = (case p of None \<Rightarrow> None | Some a \<Rightarrow> heap s a)"

text \<open>\<open>rd s p f\<close> is the read \<^verbatim>\<open>p->f\<close>, \<open>wr p g s\<close> the write of a field of \<^verbatim>\<open>*p\<close>; both are
  \<open>None\<close> when \<open>p\<close> is null or dangling.\<close>

definition rd :: "rbt \<Rightarrow> ptr \<Rightarrow> (node \<Rightarrow> 'a) \<Rightarrow> 'a option" where
  "rd s p f = map_option f (deref s p)"

definition wr :: "ptr \<Rightarrow> (node \<Rightarrow> node) \<Rightarrow> rbt \<Rightarrow> rbt option" where
  "wr p g s =
     (case p of
        None \<Rightarrow> None
      | Some a \<Rightarrow>
          (case heap s a of
             None \<Rightarrow> None
           | Some n \<Rightarrow> Some (s\<lparr>heap := (heap s)(a \<mapsto> g n)\<rparr>)))"

text \<open>Sequencing: \<open>or_crash\<close> goes on after a read or write, or stops at its failed
  dereference; \<open>and_then\<close> goes on after a call that returned, and passes a throw or a crash
  of that call on to the caller.\<close>

definition or_crash :: "'a option \<Rightarrow> ('a \<Rightarrow> 'b outcome) \<Rightarrow> 'b outcome" where
  "or_crash m f = (case m of None \<Rightarrow> Crashed | Some x \<Rightarrow> f x)"

definition and_then :: "'a outcome \<Rightarrow> ('a \<Rightarrow> rbt \<Rightarrow> 'b outcome) \<Rightarrow> 'b outcome" where
  "and_then r f =
     (case r of Returned x s \<Rightarrow> f x s | Thrown m s \<Rightarrow> Thrown m s | Crashed \<Rightarrow> Crashed)"

subsection \<open>Machine integers\<close>

text \<open>An \<^verbatim>\<open>int\<close> has 32 bits and a \<^verbatim>\<open>size_t\<close> 64, both in two's complement. \<open>to_int x\<close> is the
  value an \<^verbatim>\<open>int\<close> holds after the number \<open>x\<close> is converted or assigned to it: it wraps modulo
  \<open>2 ^ 32\<close> into the range from \<open>- (2 ^ 31)\<close> to \<open>2 ^ 31 - 1\<close>. This is what \<^verbatim>\<open>rank += size\<close>
  leaves in \<^verbatim>\<open>rank\<close> whatever integer type \<^verbatim>\<open>size\<close> has, and what \<^verbatim>\<open>static_cast<int>\<close> makes of
  a \<^verbatim>\<open>size_t\<close>. \<open>to_size_t x\<close> is the value of the \<^verbatim>\<open>int\<close> \<open>x\<close> returned as a \<^verbatim>\<open>size_t\<close>: a
  negative number comes out as \<open>2 ^ 64\<close> plus itself.\<close>

definition to_int :: "int \<Rightarrow> int" where
  "to_int x = (x + 2 ^ 31) mod 2 ^ 32 - 2 ^ 31"

definition to_size_t :: "int \<Rightarrow> nat" where
  "to_size_t x = nat (x mod 2 ^ 64)"

section \<open>Lookup\<close>

text \<open>\<^verbatim>\<open>RedBlackTree::contains\<close>, lines 38-46: the loop, from \<^verbatim>\<open>curr\<close> (\<open>cur\<close> here).\<close>

partial_function (option) contains_from :: "int \<Rightarrow> ptr \<Rightarrow> rbt \<Rightarrow> bool outcome option" where
  "contains_from k cur s =
     (case cur of
        None \<Rightarrow> Some (Returned False s)
      | Some a \<Rightarrow>
          (case heap s a of
             None \<Rightarrow> Some Crashed
           | Some n \<Rightarrow>
               if k = key n then Some (Returned True s)
               else if k < key n then contains_from k (left n) s
               else contains_from k (right n) s))"

definition contains :: "int \<Rightarrow> rbt \<Rightarrow> bool outcome option" where
  "contains k s = contains_from k (root s) s"

section \<open>Insertion\<close>

text \<open>\<^verbatim>\<open>RedBlackTree::insertKey\<close>, lines 67-99. The loop of lines 72-79 either leaves the
  function with \<^verbatim>\<open>return nullptr\<close> (\<open>Duplicate\<close>) or runs off the tree with \<^verbatim>\<open>prev\<close> the last
  node seen (\<open>Fell_off prev\<close>). \<^verbatim>\<open>++curr->size\<close> comes before the comparison.\<close>

datatype descent = Duplicate | Fell_off ptr

partial_function (option) insertKey_loop ::
  "int \<Rightarrow> ptr \<Rightarrow> ptr \<Rightarrow> rbt \<Rightarrow> descent outcome option" where
  "insertKey_loop k prev cur s =
     (case cur of
        None \<Rightarrow> Some (Returned (Fell_off prev) s)
      | Some a \<Rightarrow>
          (case heap s a of
             None \<Rightarrow> Some Crashed
           | Some n \<Rightarrow>
               (let s' = s\<lparr>heap := (heap s)(a \<mapsto> n\<lparr>size' := size' n + 1\<rparr>)\<rparr> in
                if k = key n then Some (Returned Duplicate s')
                else if k < key n then insertKey_loop k cur (left n) s'
                else insertKey_loop k cur (right n) s')))"

text \<open>Lines 82-98: the new node, and its wiring below \<^verbatim>\<open>prev\<close>.\<close>

definition attach :: "int \<Rightarrow> ptr \<Rightarrow> rbt \<Rightarrow> ptr outcome" where
  "attach k prev s =
     (let a = fresh s;
          nd = Some a;
          s1 = s\<lparr>heap := (heap s)(a \<mapsto>
                   \<lparr>key = k, color = BLACK, left = None, right = None,
                    parent = prev, size' = 1\<rparr>),
                 fresh := a + 1\<rparr>
      in if prev = None then Returned nd (s1\<lparr>root := nd\<rparr>)
         else or_crash (rd s1 prev key) (\<lambda>pk.
           if k < pk then or_crash (wr prev (\<lambda>n. n\<lparr>left := nd\<rparr>) s1) (Returned nd)
           else or_crash (wr prev (\<lambda>n. n\<lparr>right := nd\<rparr>) s1) (Returned nd)))"

definition insertKey :: "int \<Rightarrow> rbt \<Rightarrow> ptr outcome option" where
  "insertKey k s =
     map_option
       (\<lambda>r. and_then r
          (\<lambda>d s1. case d of Duplicate \<Rightarrow> Returned None s1 | Fell_off prev \<Rightarrow> attach k prev s1))
       (insertKey_loop k None (root s) s)"

subsection \<open>Rotation\<close>

text \<open>\<^verbatim>\<open>RedBlackTree::siblingOf\<close>, lines 318-326.\<close>

definition siblingOf :: "rbt \<Rightarrow> ptr \<Rightarrow> ptr option" where
  "siblingOf s nd = do {
     par \<leftarrow> rd s nd parent;
     if par = None then Some None
     else do {
       pl \<leftarrow> rd s par left;
       if nd = pl then rd s par right else rd s par left
     }
   }"

text \<open>\<^verbatim>\<open>RedBlackTree::rotateWithParent\<close>, lines 271-314: everything after the check of line
  267, in the three steps the source names and the two size assignments that follow them.
  Each line of the source is one or two lines here, and \<^verbatim>\<open>node->parent\<close> is read again
  wherever the source reads it again.

  Step 1, lines 275-286: the node, its parent and the middle child change places; the
  result carries \<^verbatim>\<open>child\<close>.\<close>

definition rotate_children :: "ptr \<Rightarrow> rbt \<Rightarrow> (ptr \<times> rbt) option" where
  "rotate_children nd s = do {
     np \<leftarrow> rd s nd parent;
     npl \<leftarrow> rd s np left;
     if nd = npl then do {
       child \<leftarrow> rd s nd right;
       s1 \<leftarrow> wr nd (\<lambda>n. n\<lparr>right := np\<rparr>) s;
       np1 \<leftarrow> rd s1 nd parent;
       s2 \<leftarrow> wr np1 (\<lambda>n. n\<lparr>left := child\<rparr>) s1;
       Some (child, s2)
     } else do {
       child \<leftarrow> rd s nd left;
       s1 \<leftarrow> wr nd (\<lambda>n. n\<lparr>left := np\<rparr>) s;
       np1 \<leftarrow> rd s1 nd parent;
       s2 \<leftarrow> wr np1 (\<lambda>n. n\<lparr>right := child\<rparr>) s1;
       Some (child, s2)
     }
   }"

text \<open>Step 2, lines 289-296: the grandparent, or the root, now points at the node.\<close>

definition rotate_grandparent :: "ptr \<Rightarrow> rbt \<Rightarrow> rbt option" where
  "rotate_grandparent nd s = do {
     np \<leftarrow> rd s nd parent;
     grandparent \<leftarrow> rd s np parent;
     if grandparent \<noteq> None then do {
       gl \<leftarrow> rd s grandparent left;
       if gl = np then wr grandparent (\<lambda>n. n\<lparr>left := nd\<rparr>) s
       else wr grandparent (\<lambda>n. n\<lparr>right := nd\<rparr>) s
     } else Some (s\<lparr>root := nd\<rparr>)
   }"

text \<open>Step 3, lines 307-311: the parent pointers; the result carries \<^verbatim>\<open>oldParent\<close>.\<close>

definition rotate_parents :: "ptr \<Rightarrow> ptr \<Rightarrow> rbt \<Rightarrow> (ptr \<times> rbt) option" where
  "rotate_parents nd child s = do {
     s1 \<leftarrow>
       (if child \<noteq> None then do {
          np \<leftarrow> rd s nd parent;
          wr child (\<lambda>n. n\<lparr>parent := np\<rparr>) s
        } else Some s);
     oldParent \<leftarrow> rd s1 nd parent;
     opp \<leftarrow> rd s1 oldParent parent;
     s2 \<leftarrow> wr nd (\<lambda>n. n\<lparr>parent := opp\<rparr>) s1;
     s3 \<leftarrow> wr oldParent (\<lambda>n. n\<lparr>parent := nd\<rparr>) s2;
     Some (oldParent, s3)
   }"

text \<open>Lines 313-314: the old parent takes the size the node had, and the node's size is the
  sum over its two children plus one. \<^verbatim>\<open>node->left->size\<close> and \<^verbatim>\<open>node->right->size\<close> are read
  with no test for a null child.\<close>

definition rotate_sizes :: "ptr \<Rightarrow> ptr \<Rightarrow> rbt \<Rightarrow> rbt option" where
  "rotate_sizes nd oldParent s = do {
     nsz \<leftarrow> rd s nd size';
     s1 \<leftarrow> wr oldParent (\<lambda>n. n\<lparr>size' := nsz\<rparr>) s;
     nl \<leftarrow> rd s1 nd left;
     nls \<leftarrow> rd s1 nl size';
     nr \<leftarrow> rd s1 nd right;
     nrs \<leftarrow> rd s1 nr size';
     wr nd (\<lambda>n. n\<lparr>size' := nls + nrs + 1\<rparr>) s1
   }"

definition rotate_links :: "ptr \<Rightarrow> rbt \<Rightarrow> rbt option" where
  "rotate_links nd s = do {
     (child, s1) \<leftarrow> rotate_children nd s;
     s2 \<leftarrow> rotate_grandparent nd s1;
     (oldParent, s3) \<leftarrow> rotate_parents nd child s2;
     rotate_sizes nd oldParent s3
   }"

text \<open>Lines 265-269: the check, and the \<^verbatim>\<open>throw\<close>.\<close>

definition rotateWithParent :: "ptr \<Rightarrow> rbt \<Rightarrow> unit outcome" where
  "rotateWithParent nd s =
     or_crash (rd s nd parent) (\<lambda>np.
       if np = None then Thrown ''Rotating node with no parent?'' s
       else or_crash (rotate_links nd s) (Returned ()))"

subsection \<open>Fixup\<close>

text \<open>\<^verbatim>\<open>RedBlackTree::fixupFrom\<close>, lines 102-260. One turn of the \<^verbatim>\<open>while (true)\<close> loop either
  leaves it (\<open>Break\<close>) or goes on from the grandparent (\<open>Continue\<close>). The conditions are the
  short-circuit ones of the source, a sibling or aunt being dereferenced only where the
  source does: \<open>black_and_not_red\<close> is the test of line 141, \<open>black_and_red\<close> that of line
  173, \<open>red_and_not_red\<close> that of line 180 and \<open>zig_zag\<close> that of line 194, which reads
  \<^verbatim>\<open>grandparent->left\<close> with no test of \<^verbatim>\<open>grandparent\<close>.\<close>

datatype step = Break | Continue ptr

definition black_and_not_red :: "rbt \<Rightarrow> ptr \<Rightarrow> ptr \<Rightarrow> bool option" where
  "black_and_not_red s par sibling = do {
     pc \<leftarrow> rd s par color;
     if pc = BLACK then
       (if sibling = None then Some True
        else do { sc \<leftarrow> rd s sibling color; Some (sc = BLACK) })
     else Some False
   }"

definition black_and_red :: "rbt \<Rightarrow> ptr \<Rightarrow> ptr \<Rightarrow> bool option" where
  "black_and_red s par sibling = do {
     pc \<leftarrow> rd s par color;
     if pc = BLACK then
       (if sibling \<noteq> None then do { sc \<leftarrow> rd s sibling color; Some (sc = RED) }
        else Some False)
     else Some False
   }"

definition red_and_not_red :: "rbt \<Rightarrow> ptr \<Rightarrow> ptr \<Rightarrow> bool option" where
  "red_and_not_red s par aunt = do {
     pc \<leftarrow> rd s par color;
     if pc = RED then
       (if aunt = None then Some True
        else do { ac \<leftarrow> rd s aunt color; Some (ac = BLACK) })
     else Some False
   }"

definition zig_zag :: "rbt \<Rightarrow> ptr \<Rightarrow> ptr \<Rightarrow> ptr \<Rightarrow> bool option" where
  "zig_zag s nd par grandparent = do {
     pl \<leftarrow> rd s par left;
     gl \<leftarrow> rd s grandparent left;
     Some ((nd = pl) \<noteq> (par = gl))
   }"

definition fixup_step :: "ptr \<Rightarrow> rbt \<Rightarrow> step outcome" where
  "fixup_step nd s =
     or_crash (rd s nd parent) (\<lambda>par.
     if par = None then Returned Break s
     else
     or_crash (rd s par parent) (\<lambda>grandparent.
     or_crash (siblingOf s nd) (\<lambda>sibling.
     or_crash (siblingOf s par) (\<lambda>aunt.
     or_crash (black_and_not_red s par sibling) (\<lambda>two_node.
     if two_node then
       or_crash (wr nd (\<lambda>n. n\<lparr>color := RED\<rparr>) s) (Returned Break)
     else
     or_crash (black_and_red s par sibling) (\<lambda>three_node_black.
     if three_node_black then
       or_crash (wr nd (\<lambda>n. n\<lparr>color := RED\<rparr>) s) (Returned Break)
     else
     or_crash (red_and_not_red s par aunt) (\<lambda>three_node_red.
     if three_node_red then
       or_crash (zig_zag s nd par grandparent) (\<lambda>zz.
       if zz then
         and_then (rotateWithParent nd s) (\<lambda>_ s1.
         and_then (rotateWithParent nd s1) (\<lambda>_ s2.
         or_crash (wr grandparent (\<lambda>n. n\<lparr>color := RED\<rparr>) s2) (Returned Break)))
       else
         and_then (rotateWithParent par s) (\<lambda>_ s1.
         or_crash (do {
             s2 \<leftarrow> wr par (\<lambda>n. n\<lparr>color := BLACK\<rparr>) s1;
             s3 \<leftarrow> wr nd (\<lambda>n. n\<lparr>color := RED\<rparr>) s2;
             wr grandparent (\<lambda>n. n\<lparr>color := RED\<rparr>) s3
           }) (Returned Break)))
     else
       or_crash (do {
           s1 \<leftarrow> wr par (\<lambda>n. n\<lparr>color := BLACK\<rparr>) s;
           s2 \<leftarrow> wr aunt (\<lambda>n. n\<lparr>color := BLACK\<rparr>) s1;
           wr nd (\<lambda>n. n\<lparr>color := RED\<rparr>) s2
         }) (Returned (Continue grandparent)))))))))"

partial_function (option) fixupFrom :: "ptr \<Rightarrow> rbt \<Rightarrow> unit outcome option" where
  "fixupFrom nd s =
     (case fixup_step nd s of
        Returned st s' \<Rightarrow>
          (case st of Break \<Rightarrow> Some (Returned () s') | Continue nd' \<Rightarrow> fixupFrom nd' s')
      | Thrown m t \<Rightarrow> Some (Thrown m t)
      | Crashed \<Rightarrow> Some Crashed)"

text \<open>\<^verbatim>\<open>RedBlackTree::insert\<close>, lines 51-61 (\<open>insert\<close> is a constant of HOL).\<close>

definition insert_rbt :: "int \<Rightarrow> rbt \<Rightarrow> bool outcome option" where
  "insert_rbt k s =
     (case insertKey k s of
        None \<Rightarrow> None
      | Some (Returned nd s1) \<Rightarrow>
          if nd = None then Some (Returned False s1)
          else map_option (\<lambda>r. and_then r (\<lambda>_. Returned True)) (fixupFrom nd s1)
      | Some (Thrown m t) \<Rightarrow> Some (Thrown m t)
      | Some Crashed \<Rightarrow> Some Crashed)"

section \<open>Rank and select\<close>

text \<open>\<^verbatim>\<open>RedBlackTree::printDebugInfoRec\<close>, lines 439-451, which \<^verbatim>\<open>rankOf\<close> and \<^verbatim>\<open>select\<close> call
  on the root before they do anything else. What it prints is not modelled; that it visits
  every node below its argument is, since a call returns only if that walk does.\<close>

partial_function (option) printDebugInfoRec :: "ptr \<Rightarrow> rbt \<Rightarrow> unit outcome option" where
  "printDebugInfoRec p s =
     (case p of
        None \<Rightarrow> Some (Returned () s)
      | Some a \<Rightarrow>
          (case heap s a of
             None \<Rightarrow> Some Crashed
           | Some n \<Rightarrow>
               Option.bind (printDebugInfoRec (left n) s) (\<lambda>r.
                 case r of
                   Returned _ _ \<Rightarrow> printDebugInfoRec (right n) s
                 | Thrown m t \<Rightarrow> Some (Thrown m t)
                 | Crashed \<Rightarrow> Some Crashed)))"

text \<open>\<^verbatim>\<open>RedBlackTree::rankOf\<close>, lines 342-384. The loop of lines 354-378 runs while
  \<^verbatim>\<open>current != nullptr && current->key != key\<close>. Its last branch (lines 371-377) changes
  neither \<^verbatim>\<open>current\<close> nor the condition; it is kept as the source has it. \<^verbatim>\<open>rank\<close> is the
  \<^verbatim>\<open>int\<close> of line 348: every \<^verbatim>\<open>+=\<close> wraps.\<close>

partial_function (option) rankOf_loop ::
  "int \<Rightarrow> ptr \<Rightarrow> int \<Rightarrow> rbt \<Rightarrow> int outcome option" where
  "rankOf_loop k current rank s =
     (case current of
        None \<Rightarrow> Some (Returned rank s)
      | Some a \<Rightarrow>
          (case heap s a of
             None \<Rightarrow> Some Crashed
           | Some n \<Rightarrow>
               if key n = k then Some (Returned rank s)
               else if k > key n then
                 (case left n of
                    None \<Rightarrow> rankOf_loop k (right n) (to_int (rank + 1)) s
                  | Some l \<Rightarrow>
                      (case heap s l of
                         None \<Rightarrow> Some Crashed
                       | Some ln \<Rightarrow>
                           rankOf_loop k (right n)
                             (to_int (to_int (rank + int (size' ln)) + 1)) s))
               else if k < key n then rankOf_loop k (left n) rank s
               else
                 (case left n of
                    None \<Rightarrow> rankOf_loop k current rank s
                  | Some l \<Rightarrow>
                      (case heap s l of
                         None \<Rightarrow> Some Crashed
                       | Some ln \<Rightarrow>
                           rankOf_loop k current (to_int (rank + (int (size' ln) + 1))) s))))"

text \<open>Lines 346-352: \<^verbatim>\<open>current->key\<close> is read with no test of \<^verbatim>\<open>current\<close>; the left subtree's
  size is added here only when the root holds the key. Line 383 returns the \<^verbatim>\<open>int\<close> as a
  \<^verbatim>\<open>size_t\<close>.\<close>

definition rankOf :: "int \<Rightarrow> rbt \<Rightarrow> nat outcome option" where
  "rankOf k s =
     Option.bind (printDebugInfoRec (root s) s) (\<lambda>r.
       case r of
         Thrown m t \<Rightarrow> Some (Thrown m t)
       | Crashed \<Rightarrow> Some Crashed
       | Returned _ _ \<Rightarrow>
           (case deref s (root s) of
              None \<Rightarrow> Some Crashed
            | Some n \<Rightarrow>
                map_option (\<lambda>r. and_then r (\<lambda>rank. Returned (to_size_t rank)))
                  (if key n = k then
                     (case left n of
                        None \<Rightarrow> rankOf_loop k (root s) 0 s
                      | Some l \<Rightarrow>
                          (case heap s l of
                             None \<Rightarrow> Some Crashed
                           | Some ln \<Rightarrow>
                               rankOf_loop k (root s) (to_int (0 + int (size' ln))) s))
                   else rankOf_loop k (root s) 0 s)))"

text \<open>\<^verbatim>\<open>RedBlackTree::select\<close>, lines 387-426. The loop of lines 401-421 yields the final
  \<^verbatim>\<open>current\<close>: null when it ran off the tree, the node at which \<^verbatim>\<open>endLoop\<close> was set
  otherwise. On the way right the new \<^verbatim>\<open>current\<close> is dereferenced with no test (line 404); on
  the way left \<^verbatim>\<open>current->left->size\<close> is read before the move (line 411), so it is the size
  of the subtree being entered. \<^verbatim>\<open>rank\<close> is the \<^verbatim>\<open>size_t\<close> argument, cast to \<^verbatim>\<open>int\<close> for each
  comparison (lines 402 and 409); \<^verbatim>\<open>currentRank\<close> is the \<^verbatim>\<open>int\<close> of line 392.\<close>

partial_function (option) select_loop ::
  "nat \<Rightarrow> ptr \<Rightarrow> int \<Rightarrow> rbt \<Rightarrow> ptr outcome option" where
  "select_loop rank current currentRank s =
     (case current of
        None \<Rightarrow> Some (Returned None s)
      | Some a \<Rightarrow>
          (case heap s a of
             None \<Rightarrow> Some Crashed
           | Some n \<Rightarrow>
               if to_int (int rank) > currentRank then
                 (case deref s (right n) of
                    None \<Rightarrow> Some Crashed
                  | Some rn \<Rightarrow>
                      (case left rn of
                         None \<Rightarrow> select_loop rank (right n) currentRank s
                       | Some l \<Rightarrow>
                           (case heap s l of
                              None \<Rightarrow> Some Crashed
                            | Some ln \<Rightarrow>
                                select_loop rank (right n)
                                  (to_int (currentRank + (int (size' ln) + 1))) s)))
               else if to_int (int rank) < currentRank then
                 (case deref s (left n) of
                    None \<Rightarrow> Some Crashed
                  | Some ln \<Rightarrow> select_loop rank (left n) (to_int (int (size' ln))) s)
               else
                 (case left n of
                    None \<Rightarrow> Some (Returned current s)
                  | Some l \<Rightarrow>
                      (case heap s l of
                         None \<Rightarrow> Some Crashed
                       | Some ln \<Rightarrow> Some (Returned current s)))))"

text \<open>Lines 389-394 seed \<^verbatim>\<open>currentRank\<close>; line 425 returns \<^verbatim>\<open>current->key\<close> with no test of
  \<^verbatim>\<open>current\<close>.\<close>

definition select :: "nat \<Rightarrow> rbt \<Rightarrow> int outcome option" where
  "select rank s =
     Option.bind (printDebugInfoRec (root s) s) (\<lambda>r.
       case r of
         Thrown m t \<Rightarrow> Some (Thrown m t)
       | Crashed \<Rightarrow> Some Crashed
       | Returned _ _ \<Rightarrow>
           (case (case root s of
                    None \<Rightarrow> Some 0
                  | Some a \<Rightarrow>
                      (case heap s a of
                         None \<Rightarrow> None
                       | Some n \<Rightarrow>
                           if left n \<noteq> None
                           then map_option (\<lambda>sz. to_int (int sz)) (rd s (left n) size')
                           else Some 0)) of
              None \<Rightarrow> Some Crashed
            | Some currentRank \<Rightarrow>
                map_option
                  (\<lambda>r. and_then r (\<lambda>current s'. or_crash (rd s' current key) (\<lambda>k. Returned k s')))
                  (select_loop rank (root s) currentRank s)))"

section \<open>Sequences of calls\<close>

text \<open>The keys of a list inserted one after the other, with what each call returned; the
  first call that does not return ends the run, as it ends the program.\<close>

fun inserts :: "int list \<Rightarrow> rbt \<Rightarrow> bool list outcome option" where
  "inserts [] s = Some (Returned [] s)"
| "inserts (k # ks) s =
     (case insert_rbt k s of
        None \<Rightarrow> None
      | Some (Returned b s1) \<Rightarrow>
          map_option (\<lambda>r. and_then r (\<lambda>bs. Returned (b # bs))) (inserts ks s1)
      | Some (Thrown m t) \<Rightarrow> Some (Thrown m t)
      | Some Crashed \<Rightarrow> Some Crashed)"

section \<open>The invariants of the data model\<close>

text \<open>The structure below a pointer, read off the store: \<open>None\<close> when a link dangles or the
  links never end.\<close>

datatype shape = Absent | Present shape addr node shape

partial_function (option) snapshot :: "rbt \<Rightarrow> ptr \<Rightarrow> shape option" where
  "snapshot s p =
     (case p of
        None \<Rightarrow> Some Absent
      | Some a \<Rightarrow>
          (case heap s a of
             None \<Rightarrow> None
           | Some n \<Rightarrow>
               Option.bind (snapshot s (left n)) (\<lambda>l.
               Option.bind (snapshot s (right n)) (\<lambda>r.
               Some (Present l a n r)))))"

fun keys :: "shape \<Rightarrow> int list" where
  "keys Absent = []"
| "keys (Present l a n r) = keys l @ key n # keys r"

fun ordered :: "shape \<Rightarrow> bool" where
  "ordered Absent = True"
| "ordered (Present l a n r) =
     ((\<forall>k \<in> set (keys l). k < key n) \<and> (\<forall>k \<in> set (keys r). key n < k) \<and> ordered l \<and> ordered r)"

fun is_red :: "shape \<Rightarrow> bool" where
  "is_red Absent = False"
| "is_red (Present l a n r) = (color n = RED)"

fun no_red_red :: "shape \<Rightarrow> bool" where
  "no_red_red Absent = True"
| "no_red_red (Present l a n r) =
     ((color n = RED \<longrightarrow> \<not> is_red l \<and> \<not> is_red r) \<and> no_red_red l \<and> no_red_red r)"

fun black_height :: "shape \<Rightarrow> nat" where
  "black_height Absent = 0"
| "black_height (Present l a n r) = (if color n = BLACK then 1 else 0) + black_height l"

fun black_uniform :: "shape \<Rightarrow> bool" where
  "black_uniform Absent = True"
| "black_uniform (Present l a n r) =
     (black_height l = black_height r \<and> black_uniform l \<and> black_uniform r)"

fun size_of :: "shape \<Rightarrow> nat" where
  "size_of Absent = 0"
| "size_of (Present l a n r) = size' n"

fun sizes_ok :: "shape \<Rightarrow> bool" where
  "sizes_ok Absent = True"
| "sizes_ok (Present l a n r) =
     (size' n = 1 + size_of l + size_of r \<and> sizes_ok l \<and> sizes_ok r)"

fun parent_is :: "ptr \<Rightarrow> shape \<Rightarrow> bool" where
  "parent_is p Absent = True"
| "parent_is p (Present l a n r) = (parent n = p)"

fun parents_ok :: "shape \<Rightarrow> bool" where
  "parents_ok Absent = True"
| "parents_ok (Present l a n r) =
     (parent_is (Some a) l \<and> parent_is (Some a) r \<and> parents_ok l \<and> parents_ok r)"

text \<open>An invariant holds of a tree when the structure below its root can be read off and
  has the property. The six invariants of the data model, in its order: \<open>ordered\<close>, a root
  that is not red, \<open>no_red_red\<close>, \<open>black_uniform\<close>, \<open>sizes_ok\<close>, and parent links that are the
  inverse of the child links (the root having no parent).\<close>

definition holds :: "(shape \<Rightarrow> bool) \<Rightarrow> rbt \<Rightarrow> bool" where
  "holds P s = (case snapshot s (root s) of None \<Rightarrow> False | Some t \<Rightarrow> P t)"

definition invariants :: "rbt \<Rightarrow> bool" where
  "invariants s =
     (holds ordered s \<and> holds (\<lambda>t. \<not> is_red t) s \<and> holds no_red_red s \<and>
      holds black_uniform s \<and> holds sizes_ok s \<and> holds (\<lambda>t. parent_is None t \<and> parents_ok t) s)"

definition sorted_keys :: "rbt \<Rightarrow> int list option" where
  "sorted_keys s = map_option keys (snapshot s (root s))"

text \<open>What a descent for the key \<open>k\<close> adds up when it runs off the tree: at a node with a
  smaller key, one plus the size recorded in its left child; at a node with a larger key,
  nothing.\<close>

fun descent_count :: "int \<Rightarrow> shape \<Rightarrow> nat" where
  "descent_count k Absent = 0"
| "descent_count k (Present l a n r) =
     (if key n < k then size_of l + 1 + descent_count k r else descent_count k l)"

text \<open>Two trees written out node by node; \<open>two_keys_built\<close> and \<open>three_keys_built\<close> below
  show that they are what the inserts of 3, 2 and of 10, 5, 20 build.\<close>

definition two_keys :: rbt where
  "two_keys =
     \<lparr>root = Some 0,
      heap = [0 \<mapsto> \<lparr>key = 3, color = BLACK, left = Some 1, right = None,
                     parent = None, size' = 2\<rparr>,
              1 \<mapsto> \<lparr>key = 2, color = RED, left = None, right = None,
                     parent = Some 0, size' = 1\<rparr>],
      fresh = 2\<rparr>"

definition three_keys :: rbt where
  "three_keys =
     \<lparr>root = Some 0,
      heap = [0 \<mapsto> \<lparr>key = 10, color = BLACK, left = Some 1, right = Some 2,
                     parent = None, size' = 3\<rparr>,
              1 \<mapsto> \<lparr>key = 5, color = RED, left = None, right = None,
                     parent = Some 0, size' = 1\<rparr>,
              2 \<mapsto> \<lparr>key = 20, color = RED, left = None, right = None,
                     parent = Some 0, size' = 1\<rparr>],
      fresh = 3\<rparr>"

text \<open>The tree of the keys 2 and 1 after \<open>2 ^ 31 - 1\<close> further inserts of the key 1, each of
  which returns false and increments both sizes.\<close>

definition large_sizes :: rbt where
  "large_sizes =
     \<lparr>root = Some 0,
      heap = [0 \<mapsto> \<lparr>key = 2, color = BLACK, left = Some 1, right = None,
                     parent = None, size' = 2 ^ 31 + 1\<rparr>,
              1 \<mapsto> \<lparr>key = 1, color = RED, left = None, right = None,
                     parent = Some 0, size' = 2 ^ 31\<rparr>],
      fresh = 2\<rparr>"

section \<open>Running the model\<close>

lemmas model_defs =
  insert_rbt_def insertKey_def attach_def fixup_step_def rotateWithParent_def rotate_links_def
  rotate_children_def rotate_grandparent_def rotate_parents_def rotate_sizes_def
  siblingOf_def black_and_not_red_def black_and_red_def red_and_not_red_def zig_zag_def
  or_crash_def and_then_def rd_def wr_def deref_def empty_tree_def contains_def rankOf_def
  select_def holds_def invariants_def sorted_keys_def to_int_def to_size_t_def Let_def

lemmas loop_simps =
  contains_from.simps insertKey_loop.simps fixupFrom.simps printDebugInfoRec.simps
  rankOf_loop.simps select_loop.simps snapshot.simps

lemma two_keys_built: "inserts [3, 2] empty_tree = Some (Returned [True, True] two_keys)"
  by (simp add: model_defs loop_simps two_keys_def fun_eq_iff)

lemma three_keys_built:
  "inserts [10, 5, 20] empty_tree = Some (Returned [True, True, True] three_keys)"
  by (simp add: model_defs loop_simps three_keys_def fun_eq_iff)

text \<open>The machine widths at work: past \<open>2 ^ 31\<close> the \<^verbatim>\<open>int rank\<close> of \<open>rankOf\<close> is negative
  and comes back as a huge \<^verbatim>\<open>size_t\<close>, and \<open>select\<close> sees the rank \<open>2 ^ 32\<close> as 0.\<close>

lemma rankOf_wraps:
  "rankOf 3 large_sizes = Some (Returned (2 ^ 64 - 2 ^ 31 + 1) large_sizes)"
  by (simp add: model_defs loop_simps large_sizes_def)

lemma select_casts_rank:
  "\<exists>s. inserts [1] empty_tree = Some (Returned [True] s) \<and>
       select (2 ^ 32) s = Some (Returned 1 s) \<and> select (2 ^ 31) s = Some Crashed"
  by (simp add: model_defs loop_simps)

section \<open>A descent on a finite tree\<close>

text \<open>What a successful snapshot says about the store, and what follows for the walk of
  \<open>printDebugInfoRec\<close> and for the loop of \<open>rankOf\<close>: both return.\<close>

lemma snapshot_Absent: "snapshot s p = Some Absent \<longleftrightarrow> p = None"
  by (subst snapshot.simps) (auto split: option.splits simp: bind_eq_Some_conv)

lemma snapshot_null: "snapshot s None = Some Absent"
  by (subst snapshot.simps) simp

lemma snapshot_Present:
  "snapshot s p = Some (Present l a n r) \<longleftrightarrow>
     p = Some a \<and> heap s a = Some n \<and> snapshot s (left n) = Some l \<and> snapshot s (right n) = Some r"
  by (subst snapshot.simps) (auto split: option.splits simp: bind_eq_Some_conv)

lemma printDebugInfoRec_returns:
  "snapshot s p = Some t \<Longrightarrow> printDebugInfoRec p s = Some (Returned () s)"
proof (induction t arbitrary: p)
  case Absent
  then show ?case by (simp add: snapshot_Absent printDebugInfoRec.simps)
next
  case (Present l a n r)
  from Present.prems have "p = Some a" "heap s a = Some n"
    and l: "snapshot s (left n) = Some l" and r: "snapshot s (right n) = Some r"
    by (simp_all add: snapshot_Present)
  with Present.IH(1)[OF l] Present.IH(2)[OF r] show ?case
    by (subst printDebugInfoRec.simps) simp
qed

text \<open>Wrapping once at the end is wrapping after every addition.\<close>

lemma to_int_add_left: "to_int (to_int x + y) = to_int (x + y)"
  by (simp add: to_int_def mod_simps algebra_simps)

lemma to_int_add_right: "to_int (y + to_int x) = to_int (y + x)"
  by (simp add: to_int_def mod_simps algebra_simps)

lemma to_int_idem: "to_int (to_int x) = to_int x"
  using to_int_add_left[of x 0] by simp

lemma to_int_small: "0 \<le> x \<Longrightarrow> x < 2 ^ 31 \<Longrightarrow> to_int x = x"
  by (simp add: to_int_def)

lemma to_size_t_small: "0 \<le> x \<Longrightarrow> x < 2 ^ 31 \<Longrightarrow> to_size_t x = nat x"
  by (simp add: to_size_t_def)

lemma rankOf_loop_runs_off:
  "snapshot s p = Some t \<Longrightarrow> k \<notin> set (keys t) \<Longrightarrow> to_int acc = acc \<Longrightarrow>
   rankOf_loop k p acc s = Some (Returned (to_int (acc + int (descent_count k t))) s)"
proof (induction t arbitrary: p acc)
  case Absent
  then show ?case by (simp add: snapshot_Absent rankOf_loop.simps)
next
  case (Present l a n r)
  from Present.prems(1) have p: "p = Some a" and n: "heap s a = Some n"
    and l: "snapshot s (left n) = Some l" and r: "snapshot s (right n) = Some r"
    by (simp_all add: snapshot_Present)
  from Present.prems(2) have kn: "key n \<noteq> k" and kl: "k \<notin> set (keys l)"
    and kr: "k \<notin> set (keys r)"
    by auto
  show ?case
  proof (cases "key n < k")
    case True
    show ?thesis
    proof (cases "left n")
      case None
      with l have "l = Absent" by (simp add: snapshot_null)
      with True None p n kn Present.IH(2)[OF r kr to_int_idem, of "acc + 1"] show ?thesis
        by (subst rankOf_loop.simps) (simp add: to_int_add_left to_int_add_right ac_simps)
    next
      case (Some la)
      with l obtain ln where ln: "heap s la = Some ln" and sz: "size_of l = size' ln"
        by (cases l) (auto simp: snapshot_Absent snapshot_Present)
      with True Some p n kn
        Present.IH(2)[OF r kr to_int_idem, of "to_int (acc + int (size' ln)) + 1"]
      show ?thesis
        by (subst rankOf_loop.simps) (simp add: to_int_add_left to_int_add_right ac_simps)
    qed
  next
    case False
    with kn have "k < key n" by simp
    with False p n kn Present.IH(1)[OF l kl Present.prems(3)] show ?thesis
      by (subst rankOf_loop.simps) simp
  qed
qed

section \<open>Where the rotation can throw\<close>

text \<open>The parent field of a node through the writes of a rotation: only step 3 writes it,
  and it leaves the rotated node with a parent whenever the node had a grandparent.\<close>

lemma deref_wr:
  "wr p g s = Some s' \<Longrightarrow> deref s' q = (if q = p then map_option g (deref s p) else deref s q)"
  by (auto simp: wr_def deref_def split: option.splits)

lemma deref_root_update: "deref (s\<lparr>root := x\<rparr>) q = deref s q"
  by (simp add: deref_def split: option.splits)

lemma rd_root_update: "rd (s\<lparr>root := x\<rparr>) q f = rd s q f"
  by (simp add: rd_def deref_root_update)

lemma parent_wr_other:
  "wr p g s = Some s' \<Longrightarrow> (\<And>n. parent (g n) = parent n) \<Longrightarrow> rd s' q parent = rd s q parent"
  by (cases "deref s p") (auto simp: rd_def deref_wr)

lemma parent_wr_parent:
  "wr p (\<lambda>n. n\<lparr>parent := v\<rparr>) s = Some s' \<Longrightarrow>
   rd s' q parent = (if q = p then Some v else rd s q parent)"
  by (auto simp: rd_def wr_def deref_def split: option.splits)

lemma rotate_children_parent:
  "rotate_children nd s = Some (c, s') \<Longrightarrow> rd s' q parent = rd s q parent"
  unfolding rotate_children_def
  by (auto simp: bind_eq_Some_conv parent_wr_other split: if_splits)

lemma rotate_grandparent_parent:
  "rotate_grandparent nd s = Some s' \<Longrightarrow> rd s' q parent = rd s q parent"
  unfolding rotate_grandparent_def
  by (auto simp: bind_eq_Some_conv parent_wr_other rd_root_update split: if_splits)

lemma rotate_sizes_parent:
  "rotate_sizes nd op s = Some s' \<Longrightarrow> rd s' q parent = rd s q parent"
  unfolding rotate_sizes_def
  by (auto simp: bind_eq_Some_conv parent_wr_other split: if_splits)

lemma rotate_parents_parent:
  assumes "rotate_parents nd c s = Some (op, s')" "rd s nd parent = Some (Some p)"
    "rd s (Some p) parent = Some (Some g)"
  shows "\<exists>q. rd s' nd parent = Some (Some q)"
  using assms unfolding rotate_parents_def
  by (auto simp: bind_eq_Some_conv parent_wr_parent split: if_splits)

lemma rotate_links_parent:
  assumes "rotate_links nd s = Some s'" "rd s nd parent = Some (Some p)"
    "rd s (Some p) parent = Some (Some g)"
  shows "\<exists>q. rd s' nd parent = Some (Some q)"
proof -
  from assms(1) obtain c s1 s2 op s3 where
    1: "rotate_children nd s = Some (c, s1)" and 2: "rotate_grandparent nd s1 = Some s2"
    and 3: "rotate_parents nd c s2 = Some (op, s3)" and 4: "rotate_sizes nd op s3 = Some s'"
    by (auto simp: rotate_links_def bind_eq_Some_conv)
  have "rd s2 nd parent = Some (Some p)" "rd s2 (Some p) parent = Some (Some g)"
    using assms(2,3) by (simp_all add: rotate_children_parent[OF 1] rotate_grandparent_parent[OF 2])
  from rotate_parents_parent[OF 3 this] show ?thesis
    by (simp add: rotate_sizes_parent[OF 4])
qed


lemma or_crash_Thrown:
  "or_crash x f = Thrown m t \<longleftrightarrow> (\<exists>v. x = Some v \<and> f v = Thrown m t)"
  by (cases x) (simp_all add: or_crash_def)

lemma and_then_Thrown:
  "and_then r f = Thrown m t \<longleftrightarrow>
     r = Thrown m t \<or> (\<exists>x s. r = Returned x s \<and> f x s = Thrown m t)"
  by (cases r) (simp_all add: and_then_def)

lemma rotate_throws:
  "rotateWithParent nd s = Thrown m t \<Longrightarrow> rd s nd parent = Some None"
  by (auto simp: rotateWithParent_def or_crash_Thrown split: if_splits)

lemma rotate_returns_parent:
  assumes "rotateWithParent nd s = Returned u s'" "rd s nd parent = Some (Some p)"
    "rd s (Some p) parent = Some (Some g)"
  shows "rd s' nd parent \<noteq> Some None"
proof -
  from assms(1,2) have "rotate_links nd s = Some s'"
    by (auto simp: rotateWithParent_def or_crash_def split: option.splits if_splits)
  from rotate_links_parent[OF this assms(2,3)] show ?thesis by auto
qed

lemma zig_zag_grandparent: "zig_zag s nd par gp = Some zz \<Longrightarrow> \<exists>g. gp = Some g"
  by (cases gp) (auto simp: zig_zag_def bind_eq_Some_conv rd_def deref_def)


lemma fixup_step_no_throw: "fixup_step nd s \<noteq> Thrown m t"
proof
  assume "fixup_step nd s = Thrown m t"
  then obtain pa gp zz where
    par: "rd s nd parent = Some (Some pa)" and gp: "rd s (Some pa) parent = Some gp"
    and zz: "zig_zag s nd (Some pa) gp = Some zz"
    and rot: "rotateWithParent nd s = Thrown m t \<or>
              (\<exists>u s1. rotateWithParent nd s = Returned u s1 \<and> rotateWithParent nd s1 = Thrown m t) \<or>
              rotateWithParent (Some pa) s = Thrown m t"
    by (auto simp: fixup_step_def or_crash_Thrown and_then_Thrown split: if_splits)
  from zig_zag_grandparent[OF zz] obtain g where g: "gp = Some g" ..
  from rot show False
  proof (elim disjE exE conjE)
    assume "rotateWithParent nd s = Thrown m t"
    from rotate_throws[OF this] par show False by simp
  next
    fix u s1 assume r: "rotateWithParent nd s = Returned u s1" and "rotateWithParent nd s1 = Thrown m t"
    from rotate_throws[OF this(2)] rotate_returns_parent[OF r par gp[unfolded g]] show False by simp
  next
    assume "rotateWithParent (Some pa) s = Thrown m t"
    from rotate_throws[OF this] gp g show False by simp
  qed
qed


lemma fixupFrom_no_throw:
  assumes "fixupFrom nd s = Some r"
  shows "\<forall>m t. r \<noteq> Thrown m t"
proof (rule fixupFrom.raw_induct[OF _ assms])
  fix f nd s r
  assume IH: "\<And>nd s y. f nd s = Some y \<Longrightarrow> \<forall>m t. y \<noteq> Thrown m t"
    and run: "(case fixup_step nd s of
                 Returned st s' \<Rightarrow>
                   (case st of Break \<Rightarrow> Some (Returned () s') | Continue nd' \<Rightarrow> f nd' s')
               | Thrown m t \<Rightarrow> Some (Thrown m t)
               | Crashed \<Rightarrow> Some Crashed) = Some r"
  show "\<forall>m t. r \<noteq> Thrown m t"
  proof (cases "fixup_step nd s")
    case (Returned st s')
    with run IH show ?thesis by (cases st) auto
  next
    case (Thrown m t)
    with fixup_step_no_throw show ?thesis by blast
  next
    case Crashed
    with run show ?thesis by auto
  qed
qed

lemma insertKey_loop_no_throw:
  assumes "insertKey_loop k prev cur s = Some r"
  shows "\<forall>m t. r \<noteq> Thrown m t"
proof (rule insertKey_loop.raw_induct[OF _ assms])
  fix f k prev cur s r
  assume IH: "\<And>k prev cur s y. f k prev cur s = Some y \<Longrightarrow> \<forall>m t. y \<noteq> Thrown m t"
    and run: "(case cur of
                 None \<Rightarrow> Some (Returned (Fell_off prev) s)
               | Some a \<Rightarrow>
                   (case heap s a of
                      None \<Rightarrow> Some Crashed
                    | Some n \<Rightarrow>
                        (let s' = s\<lparr>heap := (heap s)(a \<mapsto> n\<lparr>size' := size' n + 1\<rparr>)\<rparr> in
                         if k = key n then Some (Returned Duplicate s')
                         else if k < key n then f k cur (left n) s'
                         else f k cur (right n) s'))) = Some r"
  from run IH show "\<forall>m t. r \<noteq> Thrown m t"
    by (auto simp: Let_def split: option.splits if_splits)
qed

lemma attach_no_throw: "attach k prev s \<noteq> Thrown m t"
  by (auto simp: attach_def Let_def or_crash_Thrown)

lemma insertKey_no_throw: "insertKey k s \<noteq> Some (Thrown m t)"
  using insertKey_loop_no_throw[of k None "root s" s]
  by (auto simp: insertKey_def and_then_Thrown attach_no_throw split: descent.splits)

lemma insert_rbt_no_throw: "insert_rbt k s \<noteq> Some (Thrown m t)"
  using insertKey_no_throw[of k s]
  by (auto simp: insert_rbt_def and_then_Thrown split: option.splits outcome.splits if_splits
      dest: fixupFrom_no_throw)

section \<open>The claims\<close>

text \<open>
  C1 (invariant preservation): after every call of a sequence of inserts into the empty
  tree, the six invariants hold. The code breaks this. Inserting 3, 2, 1 returns true three
  times and leaves the keys in order, but the rotation of the zig-zig case writes the sizes
  the wrong way round: the root records 4 nodes in a tree of 3. Inserting 1 twice leaves the
  only node with size 2, since the descent increments before it compares. Inserting 10, 5, 7
  never returns: the zig-zag rotation reads the size of an absent child.
\<close>

theorem inserts_break_invariants:
  "(\<exists>s. inserts [3, 2, 1] empty_tree = Some (Returned [True, True, True] s) \<and>
        sorted_keys s = Some [1, 2, 3] \<and> rd s (root s) size' = Some 4 \<and>
        \<not> holds sizes_ok s \<and> \<not> invariants s) \<and>
   (\<exists>s. inserts [1, 1] empty_tree = Some (Returned [True, False] s) \<and>
        sorted_keys s = Some [1] \<and> rd s (root s) size' = Some 2 \<and>
        \<not> holds sizes_ok s \<and> \<not> invariants s) \<and>
   inserts [10, 5, 7] empty_tree = Some Crashed"
  by (simp add: model_defs loop_simps)

text \<open>
  C2 (duplicate rejection): inserting a key that is present returns false and changes
  nothing. The code returns false, but on the tree holding only the key 1 the second insert
  of 1 has already incremented the size of the node it found: the tree after the call is not
  the tree before it.
\<close>

theorem duplicate_insert_changes_sizes:
  "\<exists>s s'. inserts [1] empty_tree = Some (Returned [True] s) \<and> invariants s \<and>
      contains 1 s = Some (Returned True s) \<and>
      insert_rbt 1 s = Some (Returned False s') \<and>
      rd s (root s) size' = Some 1 \<and> rd s' (root s') size' = Some 2 \<and> s' \<noteq> s"
  by (auto simp: model_defs loop_simps dest: map_upd_eqD1)

text \<open>
  C3 (membership): for distinct keys inserted in any order, contains is true exactly of the
  inserted keys, and it is false of every key on the empty tree. The second half holds. The
  first fails for the order 10, 5, 7: the tree after 10, 5 satisfies the invariants, and the
  insert of 7 dereferences a null pointer in the rotation, so no call of contains follows.
\<close>

theorem zig_zag_insert_crashes:
  "(\<exists>s. inserts [10, 5] empty_tree = Some (Returned [True, True] s) \<and> invariants s \<and>
        insert_rbt 7 s = Some Crashed) \<and>
   contains k empty_tree = Some (Returned False empty_tree)"
  by (simp add: model_defs loop_simps)

text \<open>
  C4 (rank): rankOf of a present key is its position in ascending order, the size of the
  left subtree being added at the node that holds the key. The code adds it only when that
  node is the root. In the tree built from 10, 5, 20, 3 the keys in order are 3, 5, 10, 20;
  the key 5 is at position 1, and rankOf 5 returns 0.
\<close>

theorem rankOf_misses_left_subtree:
  "\<exists>s. inserts [10, 5, 20, 3] empty_tree = Some (Returned [True, True, True, True] s) \<and>
       invariants s \<and> sorted_keys s = Some [3, 5, 10, 20] \<and>
       contains 5 s = Some (Returned True s) \<and>
       rankOf 5 s = Some (Returned 0 s)"
  by (simp add: model_defs loop_simps)

text \<open>
  C5 (select): select of a position below the number of nodes returns the key at that
  position, the running rank on a left descent being the size of the new node's left
  subtree. The code takes the size of the new node's whole subtree, and on a right descent
  adds nothing when the new node has no left child. In the tree built from 10, 5, 20, 3
  (keys in order 3, 5, 10, 20) select 0 and select 3 dereference a null pointer and select 1
  returns 3, not 5.
\<close>

theorem select_crashes_or_misses:
  "\<exists>s. inserts [10, 5, 20, 3] empty_tree = Some (Returned [True, True, True, True] s) \<and>
       invariants s \<and> sorted_keys s = Some [3, 5, 10, 20] \<and>
       select 0 s = Some Crashed \<and> select 1 s = Some (Returned 3 s) \<and>
       select 3 s = Some Crashed"
  by (simp add: model_defs loop_simps)

text \<open>
  C6 (rank and select are inverse): rankOf (select r) = r for every position r, and
  select (rankOf k) = k for every present key k. In the tree built from
  10, 5, 20, 3, 7, 15, 25 the code gives select 1 = 3 and rankOf 3 = 0, which is not 1; and
  rankOf 5 = 0, while select 0 dereferences a null pointer.
\<close>

theorem rank_select_not_inverse:
  "\<exists>s. inserts [10, 5, 20, 3, 7, 15, 25] empty_tree =
         Some (Returned [True, True, True, True, True, True, True] s) \<and>
       invariants s \<and> sorted_keys s = Some [3, 5, 7, 10, 15, 20, 25] \<and>
       select 1 s = Some (Returned 3 s) \<and> rankOf 3 s = Some (Returned 0 s) \<and>
       rankOf 5 s = Some (Returned 0 s) \<and> select 0 s = Some Crashed"
  by (simp add: model_defs loop_simps)

text \<open>
  C7 (rotation restores the sizes): on a tree whose sizes are right, rotateWithParent of a
  node that is not the root leaves every size right, also when the node has an absent child
  afterwards. In the tree built from 2, 1 the node of key 1 (at address 1, below the root)
  has no left child after the rotation, and the code reads that child's size: a null
  dereference. In the tree built from 10, 5, 20, 3, 7, 15, 25 the rotation of the node of
  key 5 returns, with the old parent's size 3 and the node's size 5 in a tree of 7 nodes
  whose old parent now roots 5 of them.
\<close>

theorem rotation_corrupts_sizes:
  "(\<exists>s. inserts [2, 1] empty_tree = Some (Returned [True, True] s) \<and> invariants s \<and>
        rd s (Some 1) key = Some 1 \<and> rd s (Some 1) parent = Some (Some 0) \<and>
        rotateWithParent (Some 1) s = Crashed) \<and>
   (\<exists>s s'. inserts [10, 5, 20, 3, 7, 15, 25] empty_tree =
          Some (Returned [True, True, True, True, True, True, True] s) \<and>
        invariants s \<and> rd s (Some 1) key = Some 5 \<and>
        rd s (Some 1) parent = Some (Some 0) \<and> rd s (Some 1) size' = Some 3 \<and>
        rotateWithParent (Some 1) s = Returned () s' \<and>
        sorted_keys s' = Some [3, 5, 7, 10, 15, 20, 25] \<and>
        rd s' (Some 0) size' = Some 3 \<and> rd s' (Some 1) size' = Some 5 \<and>
        \<not> holds sizes_ok s')"
  by (simp add: model_defs loop_simps)

text \<open>
  C8 (rotation on the root): rotateWithParent of a node with no parent throws, and the tree
  at the throw is the tree of the call; and no insert reaches that throw. Both hold, the
  second for every state of the store, so in particular for the trees that satisfy the
  invariants: fixupFrom rotates a node only after it has read the node's parent, and
  rotates it a second time or rotates its parent only after it has read a field of the
  grandparent.
\<close>

theorem rotation_on_root_throws_unreached:
  "(heap s a = Some n \<and> parent n = None \<longrightarrow>
      rotateWithParent (Some a) s = Thrown ''Rotating node with no parent?'' s) \<and>
   (\<forall>m t. fixupFrom nd s \<noteq> Some (Thrown m t)) \<and>
   (\<forall>m t. insert_rbt k s \<noteq> Some (Thrown m t))"
  using fixupFrom_no_throw[of nd s] insert_rbt_no_throw[of k s]
  by (auto simp: rotateWithParent_def or_crash_def rd_def deref_def)

text \<open>On the tree built from 3, 2: the rotation of the root throws and leaves the tree as it
  was, and the insert of 1, which rotates the node of key 2, returns.\<close>

theorem rotation_on_root_throws_unreached_witness:
  "invariants two_keys \<and>
   heap two_keys 0 =
     Some \<lparr>key = 3, color = BLACK, left = Some 1, right = None, parent = None, size' = 2\<rparr> \<and>
   rotateWithParent (Some 0) two_keys = Thrown ''Rotating node with no parent?'' two_keys \<and>
   (\<exists>s'. insert_rbt 1 two_keys = Some (Returned True s')) \<and>
   (\<forall>m t. insert_rbt 1 two_keys \<noteq> Some (Thrown m t))"
  using rotation_on_root_throws_unreached
    [of two_keys 0
        "\<lparr>key = 3, color = BLACK, left = Some 1, right = None, parent = None, size' = 2\<rparr>"
        None 1]
  by (simp add: model_defs loop_simps two_keys_def)

text \<open>
  C9 (the scenario 10, 5, 20, 3, 7, 15, 25): contains 7 is true, contains 8 is false,
  rankOf 3 is 0, rankOf 25 is 6, select 0 is 3, select 6 is 25 and select 3 is 10. The code
  gives the first four and the last; select 0 and select 6 dereference a null pointer.
\<close>

theorem scenario_select_crashes:
  "\<exists>s. inserts [10, 5, 20, 3, 7, 15, 25] empty_tree =
         Some (Returned [True, True, True, True, True, True, True] s) \<and>
       contains 7 s = Some (Returned True s) \<and> contains 8 s = Some (Returned False s) \<and>
       rankOf 3 s = Some (Returned 0 s) \<and> rankOf 25 s = Some (Returned 6 s) \<and>
       select 3 s = Some (Returned 10 s) \<and>
       select 0 s = Some Crashed \<and> select 6 s = Some Crashed"
  by (simp add: model_defs loop_simps)

text \<open>
  C10 (rank of an absent key): on every tree that is not empty, rankOf of a key that is not
  in it returns, and what it returns is the count its descent had added up when it ran off
  the tree, as the \<^verbatim>\<open>int rank\<close> holds it and the \<^verbatim>\<open>size_t\<close> result shows it: the count itself
  whenever that is below \<open>2 ^ 31\<close>. Nothing tells the caller that the key was absent. On the
  tree built from 10, 5, 20 the absent key 15 and the present key 20 both get 2, and the key
  30, greater than every key, gets 3.
\<close>

theorem rankOf_absent_key_returns:
  "(snapshot s (root s) = Some t \<and> t \<noteq> Absent \<and> k \<notin> set (keys t) \<longrightarrow>
      rankOf k s = Some (Returned (to_size_t (to_int (int (descent_count k t)))) s) \<and>
      (descent_count k t < 2 ^ 31 \<longrightarrow>
         rankOf k s = Some (Returned (descent_count k t) s))) \<and>
   rankOf 15 three_keys = Some (Returned 2 three_keys) \<and>
   rankOf 20 three_keys = Some (Returned 2 three_keys) \<and>
   rankOf 30 three_keys = Some (Returned 3 three_keys)"
proof -
  have wrapped: "rankOf k s = Some (Returned (to_size_t (to_int (int (descent_count k t)))) s)"
    if tree: "snapshot s (root s) = Some t" and "t \<noteq> Absent" and absent: "k \<notin> set (keys t)"
  proof -
    from that obtain l a n r where t: "t = Present l a n r" by (cases t) auto
    with tree have rt: "root s = Some a" and n: "heap s a = Some n"
      by (simp_all add: snapshot_Present)
    from absent t have "key n \<noteq> k" by auto
    moreover have "to_int 0 = 0" by (simp add: to_int_def)
    ultimately show ?thesis
      using rt n printDebugInfoRec_returns[OF tree] rankOf_loop_runs_off[OF tree absent, of 0]
      by (simp add: rankOf_def deref_def and_then_def)
  qed
  have exact: "to_size_t (to_int (int (descent_count k t))) = descent_count k t"
    if "descent_count k t < 2 ^ 31"
    using that by (simp add: to_int_small to_size_t_small)
  have "rankOf 15 three_keys = Some (Returned 2 three_keys)"
    "rankOf 20 three_keys = Some (Returned 2 three_keys)"
    "rankOf 30 three_keys = Some (Returned 3 three_keys)"
    by (simp_all add: model_defs loop_simps three_keys_def)
  with wrapped exact show ?thesis by simp
qed

text \<open>On the tree built from 10, 5, 20, for the absent key 15.\<close>

theorem rankOf_absent_key_returns_witness:
  "\<exists>t. snapshot three_keys (root three_keys) = Some t \<and> t \<noteq> Absent \<and>
       15 \<notin> set (keys t) \<and> keys t = [5, 10, 20] \<and> descent_count 15 t = 2 \<and>
       descent_count 15 t < 2 ^ 31 \<and>
       rankOf 15 three_keys =
         Some (Returned (to_size_t (to_int (int (descent_count 15 t)))) three_keys) \<and>
       rankOf 15 three_keys = Some (Returned (descent_count 15 t) three_keys)"
  using rankOf_absent_key_returns
    [of three_keys
        "Present
           (Present Absent 1
              \<lparr>key = 5, color = RED, left = None, right = None, parent = Some 0, size' = 1\<rparr>
              Absent)
           0
           \<lparr>key = 10, color = BLACK, left = Some 1, right = Some 2, parent = None, size' = 3\<rparr>
           (Present Absent 2
              \<lparr>key = 20, color = RED, left = None, right = None, parent = Some 0, size' = 1\<rparr>
              Absent)"
        15]
  by (simp add: loop_simps three_keys_def to_int_def to_size_t_def)

end
